theory Spec2Isabelle
  imports Main "HOL-Library.Word"
begin

section \<open>JavaScript values used by the services\<close>

text \<open>
  The three backend services (\<open>SealService\<close>, \<open>WalrusService\<close>, \<open>SuiService\<close>) are
  asynchronous methods that validate configuration, call one SDK method after the other
  and reshape the answer. A method is modelled as a function of the configuration, of the
  SDK (a record of functions, one per SDK method the code calls, each answering a request
  with a thrown value or a result) and of the arguments. Its value is the settled promise:
  \<open>Inl\<close> the thrown value, \<open>Inr\<close> the result. Methods of \<open>SealService\<close> and
  \<open>WalrusService\<close> also return the list of SDK calls they issued, in order.
  An SDK answers the same request with the same answer, and the clock is read once per
  call (\<open>now\<close>, in milliseconds). Console output is not modelled. Numbers are integers
  (sizes, epochs and timestamps); \<open>NaN\<close> appears only as the result of \<open>parseInt\<close>.
  Objects that come from the ledger or the storage network have the fields and the field
  types of the TypeScript types the code casts them to, every optional field an \<open>option\<close>.
\<close>

type_synonym byte = "8 word"

text \<open>What a \<open>catch (error)\<close> clause receives: an \<open>Error\<close> with its message, or another value.\<close>

datatype js_thrown = Error string | NonError

text \<open>\<open>error instanceof Error ? error.message : 'Unknown error'\<close>\<close>

fun error_message :: "js_thrown \<Rightarrow> string" where
  "error_message (Error m) = m"
| "error_message NonError = ''Unknown error''"

text \<open>\<open>!s\<close> for a value of type \<open>string | undefined\<close>: undefined and the empty string are falsy.\<close>

fun falsy :: "string option \<Rightarrow> bool" where
  "falsy None = True"
| "falsy (Some s) = (s = [])"

text \<open>\<open>a || b\<close> on \<open>string | undefined\<close> operands.\<close>

definition or_else :: "string option \<Rightarrow> string option \<Rightarrow> string option" where
  "or_else a b = (if falsy a then b else a)"

text \<open>\<open>a || b || ''\<close>: the chain ends in a string literal, so the result is a string.\<close>

definition or_empty :: "string option \<Rightarrow> string" where
  "or_empty a = (case a of None \<Rightarrow> [] | Some s \<Rightarrow> s)"

subsection \<open>Number.prototype.toString and String.prototype.padStart\<close>

definition digit_char :: "nat \<Rightarrow> char" where
  "digit_char d = ''0123456789abcdefghijklmnopqrstuvwxyz'' ! d"

text \<open>\<open>n.toString(radix)\<close> for a non-negative integer \<open>n\<close> and \<open>2 \<le> radix \<le> 36\<close>.\<close>

function digits_of :: "nat \<Rightarrow> nat \<Rightarrow> string" where
  "digits_of radix n =
     (if radix < 2 \<or> n < radix then [digit_char n]
      else digits_of radix (n div radix) @ [digit_char (n mod radix)])"
  by pat_completeness auto
termination
  by (relation "measure snd") auto

definition toString :: "int \<Rightarrow> string" where
  "toString i = (if i < 0 then CHR ''-'' # digits_of 10 (nat (- i)) else digits_of 10 (nat i))"

definition padStart :: "nat \<Rightarrow> char \<Rightarrow> string \<Rightarrow> string" where
  "padStart n c s = replicate (n - length s) c @ s"

text \<open>\<open>b.toString(16).padStart(2, '0')\<close> on every byte, joined.\<close>

definition byte_hex :: "byte \<Rightarrow> string" where
  "byte_hex b = padStart 2 CHR ''0'' (digits_of 16 (unat b))"

definition hex_of_bytes :: "byte list \<Rightarrow> string" where
  "hex_of_bytes bs = concat (map byte_hex bs)"

definition lower_hex_char :: "char \<Rightarrow> bool" where
  "lower_hex_char c = (c \<in> set ''0123456789abcdef'')"

subsection \<open>String.prototype.split(sep)[0]\<close>

text \<open>The part of the string before the first occurrence of a non-empty separator
  (the whole string when the separator does not occur).\<close>

fun split_first :: "string \<Rightarrow> string \<Rightarrow> string" where
  "split_first sep [] = []"
| "split_first sep (c # cs) =
     (if take (length sep) (c # cs) = sep then [] else c # split_first sep cs)"

subsection \<open>parseInt\<close>

datatype js_number = NaN | Num int

definition is_space :: "char \<Rightarrow> bool" where
  "is_space c = (of_char c \<in> {9, 10, 11, 12, 13, 32 :: nat})"

definition digit_value :: "char \<Rightarrow> nat" where
  "digit_value c =
     (let n = of_char c :: nat in
      if 48 \<le> n \<and> n \<le> 57 then n - 48
      else if 97 \<le> n \<and> n \<le> 122 then n - 87
      else if 65 \<le> n \<and> n \<le> 90 then n - 55
      else 36)"

text \<open>\<open>parseInt(s)\<close> without a radix: leading white space is skipped, a sign is read,
  \<open>0x\<close> selects base 16, the longest prefix of digits is the value, no digit gives NaN.\<close>

definition parseInt :: "string \<Rightarrow> js_number" where
  "parseInt s =
     (let s1 = dropWhile is_space s;
          neg = (take 1 s1 = ''-'');
          s2 = (if take 1 s1 = ''-'' \<or> take 1 s1 = ''+'' then drop 1 s1 else s1);
          hex = (take 2 s2 = ''0x'' \<or> take 2 s2 = ''0X'');
          radix = (if hex then 16 else 10 :: nat);
          s3 = (if hex then drop 2 s2 else s2);
          ds = takeWhile (\<lambda>c. digit_value c < radix) s3;
          n = foldl (\<lambda>a c. a * int radix + int (digit_value c)) 0 ds
      in if ds = [] then NaN else Num (if neg then - n else n))"

subsection \<open>Date.prototype.toISOString\<close>

text \<open>A \<open>Date\<close> is its time value, the milliseconds since the epoch. Time values beyond
  \<open>8.64e15\<close> in magnitude make an invalid date, on which \<open>toISOString\<close> throws a
  \<open>RangeError\<close>. The calendar date follows the proleptic Gregorian calendar.\<close>

definition civil_from_days :: "int \<Rightarrow> int \<times> int \<times> int" where
  "civil_from_days z0 =
     (let z = z0 + 719468;
          era = z div 146097;
          doe = z - era * 146097;
          yoe = (doe - doe div 1460 + doe div 36524 - doe div 146096) div 365;
          doy = doe - (365 * yoe + yoe div 4 - yoe div 100);
          mp = (5 * doy + 2) div 153;
          d = doy - (153 * mp + 2) div 5 + 1;
          m = (if mp < 10 then mp + 3 else mp - 9);
          y = yoe + era * 400 + (if m \<le> 2 then 1 else 0)
      in (y, m, d))"

definition pad_number :: "nat \<Rightarrow> int \<Rightarrow> string" where
  "pad_number n i = padStart n CHR ''0'' (digits_of 10 (nat i))"

definition iso_year :: "int \<Rightarrow> string" where
  "iso_year y =
     (if 0 \<le> y \<and> y \<le> 9999 then pad_number 4 y
      else (if y < 0 then CHR ''-'' else CHR ''+'') # pad_number 6 \<bar>y\<bar>)"

definition iso_string :: "int \<Rightarrow> string" where
  "iso_string ms =
     (let (y, m, d) = civil_from_days (ms div 86400000);
          t = ms mod 86400000
      in iso_year y @ ''-'' @ pad_number 2 m @ ''-'' @ pad_number 2 d @ ''T'' @
         pad_number 2 (t div 3600000) @ '':'' @ pad_number 2 (t div 60000 mod 60) @ '':'' @
         pad_number 2 (t div 1000 mod 60) @ ''.'' @ pad_number 3 (t mod 1000) @ ''Z'')"

definition Date_toISOString :: "int \<Rightarrow> js_thrown + string" where
  "Date_toISOString ms =
     (if \<bar>ms\<bar> \<le> 8640000000000000 then Inr (iso_string ms)
      else Inl (Error ''Invalid time value''))"

section \<open>Configuration and signing credential\<close>

text \<open>The settings the services read: \<open>config.app.enableServerEncryption\<close>,
  \<open>config.seal.policyObjectId\<close>, \<open>config.sui.backendPrivateKey\<close>,
  \<open>config.walrus.maxFileSize\<close>, \<open>config.walrus.storageEpochs\<close>,
  \<open>config.earnout.packageId\<close> and \<open>process.env.NODE_ENV\<close>.\<close>

record config =
  enableServerEncryption :: bool
  seal_policyObjectId :: "string option"
  sui_backendPrivateKey :: "string option"
  walrus_maxFileSize :: int
  walrus_storageEpochs :: int
  earnout_packageId :: "string option"
  NODE_ENV :: "string option"

datatype Ed25519Keypair = Keypair "byte list"

text \<open>The constructors of \<open>SealService\<close> and \<open>WalrusService\<close> set \<open>backendKeypair\<close>:
  it stays \<open>null\<close> when no private key is configured or when
  \<open>Ed25519Keypair.fromSecretKey\<close> throws.\<close>

definition init_backendKeypair ::
  "(string \<Rightarrow> byte list) \<Rightarrow> (byte list \<Rightarrow> js_thrown + Ed25519Keypair) \<Rightarrow> config
    \<Rightarrow> Ed25519Keypair option" where
  "init_backendKeypair from_base64 fromSecretKey cfg =
     (if falsy (sui_backendPrivateKey cfg) then None
      else case fromSecretKey (from_base64 (or_empty (sui_backendPrivateKey cfg))) of
             Inl e \<Rightarrow> None
           | Inr kp \<Rightarrow> Some kp)"

text \<open>\<open>try { body } catch (error) { throw new Error(`prefix${message}`) }\<close>\<close>

definition rethrow :: "string \<Rightarrow> 'c list \<times> (js_thrown + 'a) \<Rightarrow> 'c list \<times> (js_thrown + 'a)" where
  "rethrow prefix r =
     (case snd r of
        Inl e \<Rightarrow> (fst r, Inl (Error (prefix @ error_message e)))
      | Inr x \<Rightarrow> (fst r, Inr x))"

section \<open>SealService\<close>

record SealEncryptionConfig =
  policyObjectId :: string
  dealId :: string

record SealEncryptionResult =
  ciphertext :: "byte list"
  commitment :: string
  result_policyObjectId :: string
  encryptedAt :: string

text \<open>\<open>SealDecryptionResult\<close>, its \<open>metadata\<close> object flattened.\<close>

record SealDecryptionResult =
  plaintext :: "byte list"
  metadata_policyObjectId :: string
  metadata_encryptedAt :: string

record AccessVerificationResult =
  hasAccess :: bool
  role :: "string option"
  reason :: "string option"

datatype SessionKey = SessionKey string

record encrypt_request =
  encrypt_threshold :: int
  encrypt_packageId :: string
  encrypt_id :: string
  encrypt_data :: "byte list"

record session_request =
  session_address :: string
  session_packageId :: string
  session_ttlMin :: int
  session_signer :: Ed25519Keypair

record fetch_request =
  fetch_ids :: "string list"
  fetch_txBytes :: "byte list"
  fetch_sessionKey :: SessionKey
  fetch_threshold :: int

record decrypt_request =
  decrypt_data :: "byte list"
  decrypt_sessionKey :: SessionKey
  decrypt_txBytes :: "byte list"
  checkShareConsistency :: bool

text \<open>The Seal SDK as the service sees it: each method answers with a thrown value or a
  result. \<open>EncryptedObject_parse\<close> gives the \<open>id\<close> of the parsed object.
  \<open>subtle_digest\<close> is the platform's \<open>crypto.subtle.digest(algorithm, data)\<close>.\<close>

record seal_sdk =
  subtle_digest :: "string \<Rightarrow> byte list \<Rightarrow> js_thrown + byte list"
  sealClient_encrypt :: "encrypt_request \<Rightarrow> js_thrown + byte list"
  EncryptedObject_parse :: "byte list \<Rightarrow> js_thrown + string"
  toSuiAddress :: "Ed25519Keypair \<Rightarrow> string"
  SessionKey_create :: "session_request \<Rightarrow> js_thrown + SessionKey"
  sealClient_fetchKeys :: "fetch_request \<Rightarrow> js_thrown + unit"
  sealClient_decrypt :: "decrypt_request \<Rightarrow> js_thrown + byte list"

text \<open>The calls a method of \<open>SealService\<close> can issue through its two clients.
  \<open>SuiClient_getObject\<close> is the ledger lookup of \<open>this.suiClient\<close>.\<close>

datatype seal_call =
    Encrypt encrypt_request
  | Parse "byte list"
  | CreateSession session_request
  | FetchKeys fetch_request
  | Decrypt decrypt_request
  | SuiClient_getObject string

definition generateCommitment :: "seal_sdk \<Rightarrow> byte list \<Rightarrow> js_thrown + string" where
  "generateCommitment sdk data =
     (case subtle_digest sdk ''SHA-256'' data of
        Inl e \<Rightarrow> Inl e
      | Inr hashBuffer \<Rightarrow> Inr (''sha256:'' @ hex_of_bytes hashBuffer))"

definition encrypt_body ::
  "seal_sdk \<Rightarrow> int \<Rightarrow> byte list \<Rightarrow> SealEncryptionConfig
    \<Rightarrow> seal_call list \<times> (js_thrown + SealEncryptionResult)" where
  "encrypt_body sdk now plaintext' encryptionConfig =
     (let req = \<lparr>encrypt_threshold = 2,
                 encrypt_packageId = split_first ''::'' (policyObjectId encryptionConfig),
                 encrypt_id = dealId encryptionConfig,
                 encrypt_data = plaintext'\<rparr>
      in case sealClient_encrypt sdk req of
           Inl e \<Rightarrow> ([Encrypt req], Inl e)
         | Inr encryptedObject \<Rightarrow>
             (case generateCommitment sdk encryptedObject of
                Inl e \<Rightarrow> ([Encrypt req], Inl e)
              | Inr c \<Rightarrow>
             (case Date_toISOString now of
                Inl e \<Rightarrow> ([Encrypt req], Inl e)
              | Inr t \<Rightarrow>
                  ([Encrypt req],
                   Inr \<lparr>ciphertext = encryptedObject,
                        commitment = c,
                        result_policyObjectId = policyObjectId encryptionConfig,
                        encryptedAt = t\<rparr>))))"

definition encrypt ::
  "config \<Rightarrow> seal_sdk \<Rightarrow> int \<Rightarrow> byte list \<Rightarrow> SealEncryptionConfig
    \<Rightarrow> seal_call list \<times> (js_thrown + SealEncryptionResult)" where
  "encrypt cfg sdk now plaintext' encryptionConfig =
     (if \<not> enableServerEncryption cfg then
        ([], Inl (Error ''Server-side encryption is disabled''))
      else if falsy (seal_policyObjectId cfg) then
        ([], Inl (Error ''Seal policy object ID is not configured''))
      else rethrow ''Failed to encrypt data: '' (encrypt_body sdk now plaintext' encryptionConfig))"

text \<open>The body of the \<open>try\<close> block of \<open>decrypt\<close>. \<open>config.seal.policyObjectId!.split\<close>
  is a \<open>TypeError\<close> when the policy identifier is undefined; \<open>txBytes\<close> is
  \<open>new Uint8Array(0)\<close>.\<close>

definition decrypt_body ::
  "config \<Rightarrow> seal_sdk \<Rightarrow> Ed25519Keypair \<Rightarrow> int \<Rightarrow> byte list
    \<Rightarrow> seal_call list \<times> (js_thrown + SealDecryptionResult)" where
  "decrypt_body cfg sdk kp now data =
     (case EncryptedObject_parse sdk data of
        Inl e \<Rightarrow> ([Parse data], Inl e)
      | Inr parsed_id \<Rightarrow>
     (case seal_policyObjectId cfg of
        None \<Rightarrow>
          ([Parse data],
           Inl (Error (''Cannot read properties of undefined (reading '' @ [CHR 0x27] @ ''split''
                        @ [CHR 0x27] @ '')'')))
      | Some pid \<Rightarrow>
     (let sreq = \<lparr>session_address = toSuiAddress sdk kp,
                  session_packageId = split_first ''::'' pid,
                  session_ttlMin = 10,
                  session_signer = kp\<rparr>
      in case SessionKey_create sdk sreq of
        Inl e \<Rightarrow> ([Parse data, CreateSession sreq], Inl e)
      | Inr sessionKey \<Rightarrow>
     (let txBytes = [];
          freq = \<lparr>fetch_ids = [parsed_id], fetch_txBytes = txBytes,
                  fetch_sessionKey = sessionKey, fetch_threshold = 2\<rparr>
      in case sealClient_fetchKeys sdk freq of
        Inl e \<Rightarrow> ([Parse data, CreateSession sreq, FetchKeys freq], Inl e)
      | Inr u \<Rightarrow>
     (let dreq = \<lparr>decrypt_data = data, decrypt_sessionKey = sessionKey,
                  decrypt_txBytes = txBytes, checkShareConsistency = True\<rparr>;
          calls = [Parse data, CreateSession sreq, FetchKeys freq, Decrypt dreq]
      in case sealClient_decrypt sdk dreq of
        Inl e \<Rightarrow> (calls, Inl e)
      | Inr pt \<Rightarrow>
     (case Date_toISOString now of
        Inl e \<Rightarrow> (calls, Inl e)
      | Inr t \<Rightarrow>
          (calls, Inr \<lparr>plaintext = pt, metadata_policyObjectId = pid,
                       metadata_encryptedAt = t\<rparr>)))))))"

definition decrypt ::
  "config \<Rightarrow> seal_sdk \<Rightarrow> Ed25519Keypair option \<Rightarrow> int \<Rightarrow> byte list \<Rightarrow> string \<Rightarrow> string
    \<Rightarrow> seal_call list \<times> (js_thrown + SealDecryptionResult)" where
  "decrypt cfg sdk backendKeypair now ciphertext' dealId' userAddress =
     (if \<not> enableServerEncryption cfg then
        ([], Inl (Error ''Server-side decryption is disabled''))
      else case backendKeypair of
        None \<Rightarrow> ([], Inl (Error ''Backend keypair is not configured for decryption''))
      | Some kp \<Rightarrow> rethrow ''Failed to decrypt data: '' (decrypt_body cfg sdk kp now ciphertext'))"

text \<open>\<open>verifyAccess\<close>: nothing in its \<open>try\<close> block throws, and neither client of the
  service is called: the ledger lookup stands in comments only.\<close>

definition verifyAccess ::
  "config \<Rightarrow> seal_sdk \<Rightarrow> string \<Rightarrow> string \<Rightarrow> string option
    \<Rightarrow> seal_call list \<times> (js_thrown + AccessVerificationResult)" where
  "verifyAccess cfg sdk dealId' userAddress requiredRole =
     (if NODE_ENV cfg = Some ''development'' then
        ([], Inr \<lparr>hasAccess = True, role = Some ''buyer'', reason = None\<rparr>)
      else
        ([], Inr \<lparr>hasAccess = False, role = None,
                  reason = Some ''Access verification not yet implemented''\<rparr>))"

section \<open>WalrusService\<close>

record WalrusUploadResult =
  upload_blobId :: string
  upload_commitment :: string
  upload_size :: nat
  upload_uploadedAt :: string
  upload_storageEpochs :: int
  upload_endEpoch :: int

record BlobInfo =
  info_blobId :: string
  info_size :: int
  info_commitment :: string
  info_uploadedAt :: string
  info_storageEpochs :: int
  info_endEpoch :: int

record relay_request =
  relay_blob :: "byte list"
  relay_deletable :: bool
  relay_epochs :: int
  relay_signer :: Ed25519Keypair

text \<open>The answer of the upload relay: the blob identifier, and the certificate as
  \<open>JSON.stringify\<close> prints it.\<close>

record relay_result =
  relay_blobId :: string
  certificate_json :: string

text \<open>\<open>metadata.metadata.V1\<close> of \<open>getBlobMetadata\<close>: the unencoded length, and of each
  entry of \<open>hashes\<close> its \<open>primary_hash\<close> (absent fields are \<open>None\<close>). A primary hash has
  its discriminant \<open>$kind\<close> and, under the tag \<open>Digest\<close>, the digest bytes.\<close>

record primary_hash =
  kind :: string
  Digest :: "byte list option"

record blob_metadata =
  unencoded_length :: int
  hashes :: "primary_hash option list option"

record walrus_sdk =
  writeBlobToUploadRelay :: "relay_request \<Rightarrow> js_thrown + relay_result"
  systemState_epoch :: "js_thrown + int"
  getVerifiedBlobStatus :: "string \<Rightarrow> js_thrown + unit"
  getBlobMetadata :: "string \<Rightarrow> js_thrown + blob_metadata"

datatype walrus_call =
    WriteBlobToUploadRelay relay_request
  | SystemState
  | GetVerifiedBlobStatus string
  | GetBlobMetadata string

definition formatCertificate :: "string \<Rightarrow> string" where
  "formatCertificate certificate = ''walrus:'' @ take 64 certificate"

text \<open>\<open>formatMetadata\<close>: a missing \<open>hashes\<close> array or missing digest bytes raise a
  \<open>TypeError\<close> inside its \<open>try\<close> block, which falls through to the sentinel.\<close>

definition formatMetadata :: "blob_metadata \<Rightarrow> string" where
  "formatMetadata metadata =
     (case hashes metadata of
        None \<Rightarrow> ''walrus:unknown''
      | Some [] \<Rightarrow> ''walrus:unknown''
      | Some (None # rest) \<Rightarrow> ''walrus:unknown''
      | Some (Some primaryHash # rest) \<Rightarrow>
          (if kind primaryHash = ''Digest'' then
             (case Digest primaryHash of
                None \<Rightarrow> ''walrus:unknown''
              | Some hashBytes \<Rightarrow> ''walrus:'' @ hex_of_bytes hashBytes)
           else ''walrus:unknown''))"

definition upload_body ::
  "config \<Rightarrow> walrus_sdk \<Rightarrow> Ed25519Keypair option \<Rightarrow> int \<Rightarrow> byte list
    \<Rightarrow> walrus_call list \<times> (js_thrown + WalrusUploadResult)" where
  "upload_body cfg sdk backendKeypair now data =
     (if int (length data) > walrus_maxFileSize cfg then
        ([], Inl (Error (''File size '' @ toString (int (length data))
                          @ '' exceeds maximum allowed '' @ toString (walrus_maxFileSize cfg)
                          @ '' bytes'')))
      else case backendKeypair of
        None \<Rightarrow> ([], Inl (Error ''Backend keypair not configured for Walrus uploads''))
      | Some kp \<Rightarrow>
     (let req = \<lparr>relay_blob = data, relay_deletable = True,
                 relay_epochs = walrus_storageEpochs cfg, relay_signer = kp\<rparr>
      in case writeBlobToUploadRelay sdk req of
        Inl e \<Rightarrow> ([WriteBlobToUploadRelay req], Inl e)
      | Inr result \<Rightarrow>
     (case systemState_epoch sdk of
        Inl e \<Rightarrow> ([WriteBlobToUploadRelay req, SystemState], Inl e)
      | Inr currentEpoch \<Rightarrow>
     (case Date_toISOString now of
        Inl e \<Rightarrow> ([WriteBlobToUploadRelay req, SystemState], Inl e)
      | Inr t \<Rightarrow>
          ([WriteBlobToUploadRelay req, SystemState],
           Inr \<lparr>upload_blobId = relay_blobId result,
                upload_commitment = formatCertificate (certificate_json result),
                upload_size = length data,
                upload_uploadedAt = t,
                upload_storageEpochs = walrus_storageEpochs cfg,
                upload_endEpoch = currentEpoch + walrus_storageEpochs cfg\<rparr>)))))"

text \<open>\<open>upload(data, metadata)\<close>; the \<open>metadata\<close> argument is not used by the method.\<close>

definition upload ::
  "config \<Rightarrow> walrus_sdk \<Rightarrow> Ed25519Keypair option \<Rightarrow> int \<Rightarrow> byte list \<Rightarrow> 'm
    \<Rightarrow> walrus_call list \<times> (js_thrown + WalrusUploadResult)" where
  "upload cfg sdk backendKeypair now data metadata =
     rethrow ''Failed to upload to Walrus: '' (upload_body cfg sdk backendKeypair now data)"

definition getBlobInfo_body ::
  "walrus_sdk \<Rightarrow> int \<Rightarrow> string \<Rightarrow> walrus_call list \<times> (js_thrown + BlobInfo)" where
  "getBlobInfo_body sdk now blobId' =
     (case getVerifiedBlobStatus sdk blobId' of
        Inl e \<Rightarrow> ([GetVerifiedBlobStatus blobId'], Inl e)
      | Inr status \<Rightarrow>
     (case getBlobMetadata sdk blobId' of
        Inl e \<Rightarrow> ([GetVerifiedBlobStatus blobId', GetBlobMetadata blobId'], Inl e)
      | Inr metadata \<Rightarrow>
     (let calls = [GetVerifiedBlobStatus blobId', GetBlobMetadata blobId', SystemState]
      in case systemState_epoch sdk of
        Inl e \<Rightarrow> (calls, Inl e)
      | Inr currentEpoch \<Rightarrow>
     (case Date_toISOString now of
        Inl e \<Rightarrow> (calls, Inl e)
      | Inr t \<Rightarrow>
          (calls,
           Inr \<lparr>info_blobId = blobId',
                info_size = unencoded_length metadata,
                info_commitment = formatMetadata metadata,
                info_uploadedAt = t,
                info_storageEpochs = 0,
                info_endEpoch = currentEpoch\<rparr>)))))"

definition getBlobInfo ::
  "walrus_sdk \<Rightarrow> int \<Rightarrow> string \<Rightarrow> walrus_call list \<times> (js_thrown + BlobInfo)" where
  "getBlobInfo sdk now blobId' =
     rethrow ''Failed to get blob info: '' (getBlobInfo_body sdk now blobId')"

section \<open>SuiService\<close>

text \<open>An element of the \<open>walrus_blobs\<close> array, with the optional fields of the type the
  code casts it to: both naming conventions side by side.\<close>

record walrus_blob =
  blob_id :: "string option"
  blob_blobId :: "string option"
  period_id :: "string option"
  blob_periodId :: "string option"
  data_type :: "string option"
  blob_dataType :: "string option"
  blob_size :: "int option"
  uploaded_at :: "int option"
  blob_uploadedAt :: "int option"
  uploader :: "string option"
  blob_uploaderAddress :: "string option"

record OnChainBlobReference =
  blobId :: string
  periodId :: string
  dataType :: string
  size' :: int
  uploadedAt :: string
  uploaderAddress :: string

record DataAuditRecord =
  id' :: string
  dataId :: string
  record_dealId :: string
  record_periodId :: string
  record_uploader :: string
  uploadTimestamp :: js_number
  audited :: bool
  auditor :: "string option"
  auditTimestamp :: "js_number option"

text \<open>The value under the key \<open>auditor\<close>: an address in a Deal object, an option object
  \<open>{vec?: string[]}\<close> in an audit record.\<close>

datatype auditor_field = AuditorAbsent | AuditorAddress string | AuditorOption "string list option"

text \<open>\<open>content.fields\<close> of a Move object, at the keys the service reads and with the types it
  casts them to. \<open>field_walrus_blobs\<close> is \<open>None\<close> when the key is absent or not an array.\<close>

record move_fields =
  field_buyer :: "string option"
  field_seller :: "string option"
  field_auditor :: auditor_field
  field_walrus_blobs :: "walrus_blob list option"
  field_data_id :: "string option"
  field_deal_id :: "string option"
  field_period_id :: "string option"
  field_uploader :: "string option"
  field_upload_timestamp :: "string option"
  field_audited :: "bool option"
  field_audit_timestamp :: "string list option option"

datatype parsed_data = MoveObject move_fields | Package

text \<open>The answer of \<open>getObject\<close>: \<open>data\<close> and, in it, \<open>content\<close>, either of which may be
  missing.\<close>

record object_response =
  response_data :: "parsed_data option option"

record get_object_request =
  request_id :: string
  showContent :: bool
  showType :: bool

record query_events_request =
  MoveEventType :: string
  limit :: int

text \<open>\<open>event.parsedJson\<close> of an event, cast to its two optional fields.\<close>

record parsed_event =
  audit_record_id :: "string option"
  event_deal_id :: "string option"

record sui_sdk =
  getObject :: "get_object_request \<Rightarrow> js_thrown + object_response"
  queryEvents :: "query_events_request \<Rightarrow> js_thrown + parsed_event list"

text \<open>\<open>try { body } catch (error) { throw new Error(`prefix${message}`) }\<close> for a method
  of \<open>SuiService\<close>.\<close>

definition rethrow_query :: "string \<Rightarrow> js_thrown + 'a \<Rightarrow> js_thrown + 'a" where
  "rethrow_query prefix r =
     (case r of Inl e \<Rightarrow> Inl (Error (prefix @ error_message e)) | Inr x \<Rightarrow> Inr x)"

text \<open>\<open>Array.prototype.map\<close> with a callback that may throw: the first exception leaves the
  loop.\<close>

fun map_throwing :: "('a \<Rightarrow> js_thrown + 'b) \<Rightarrow> 'a list \<Rightarrow> js_thrown + 'b list" where
  "map_throwing f [] = Inr []"
| "map_throwing f (x # xs) =
     (case f x of
        Inl e \<Rightarrow> Inl e
      | Inr y \<Rightarrow> (case map_throwing f xs of Inl e \<Rightarrow> Inl e | Inr ys \<Rightarrow> Inr (y # ys)))"

text \<open>A number is truthy when it is present and not zero; \<open>n || 0\<close>.\<close>

fun truthy_number :: "int option \<Rightarrow> bool" where
  "truthy_number None = False"
| "truthy_number (Some n) = (n \<noteq> 0)"

definition or_zero :: "int option \<Rightarrow> int" where
  "or_zero a = (case a of None \<Rightarrow> 0 | Some n \<Rightarrow> n)"

text \<open>The time value of the \<open>Date\<close> that \<open>uploadedAt\<close> is printed from:
  \<open>uploaded_at\<close> counts seconds, \<open>uploadedAt\<close> milliseconds, and the clock is read when
  neither is truthy.\<close>

definition uploadedAt_time :: "int \<Rightarrow> walrus_blob \<Rightarrow> int" where
  "uploadedAt_time now blob =
     (if truthy_number (uploaded_at blob) then or_zero (uploaded_at blob) * 1000
      else if truthy_number (blob_uploadedAt blob) then or_zero (blob_uploadedAt blob)
      else now)"

text \<open>The callback of \<open>walrusBlobs.map\<close> in \<open>getDealBlobReferences\<close>.\<close>

definition toBlobReference :: "int \<Rightarrow> walrus_blob \<Rightarrow> js_thrown + OnChainBlobReference" where
  "toBlobReference now blob =
     (case Date_toISOString (uploadedAt_time now blob) of
        Inl e \<Rightarrow> Inl e
      | Inr t \<Rightarrow>
          Inr \<lparr>blobId = or_empty (or_else (blob_id blob) (blob_blobId blob)),
               periodId = or_empty (or_else (period_id blob) (blob_periodId blob)),
               dataType = or_empty (or_else (data_type blob) (blob_dataType blob)),
               size' = or_zero (blob_size blob),
               uploadedAt = t,
               uploaderAddress = or_empty (or_else (uploader blob) (blob_uploaderAddress blob))\<rparr>)"

definition getDealBlobReferences_body ::
  "config \<Rightarrow> sui_sdk \<Rightarrow> int \<Rightarrow> string \<Rightarrow> js_thrown + OnChainBlobReference list" where
  "getDealBlobReferences_body cfg sdk now dealId' =
     (if falsy (earnout_packageId cfg) then Inr []
      else case getObject sdk \<lparr>request_id = dealId', showContent = True, showType = True\<rparr> of
        Inl e \<Rightarrow> Inl e
      | Inr dealObject \<Rightarrow>
     (case response_data dealObject of
        None \<Rightarrow> Inl (Error (''Deal not found: '' @ dealId'))
      | Some None \<Rightarrow> Inl (Error ''Invalid Deal object structure'')
      | Some (Some Package) \<Rightarrow> Inl (Error ''Invalid Deal object structure'')
      | Some (Some (MoveObject flds)) \<Rightarrow>
     (case field_walrus_blobs flds of
        None \<Rightarrow> Inr []
      | Some walrusBlobs \<Rightarrow> map_throwing (toBlobReference now) walrusBlobs)))"

definition getDealBlobReferences ::
  "config \<Rightarrow> sui_sdk \<Rightarrow> int \<Rightarrow> string \<Rightarrow> js_thrown + OnChainBlobReference list" where
  "getDealBlobReferences cfg sdk now dealId' =
     rethrow_query ''Failed to query on-chain blob data: ''
       (getDealBlobReferences_body cfg sdk now dealId')"

text \<open>The first loop of \<open>getDealAuditRecords\<close>: the identifiers of the events of this deal.\<close>

fun collect_ids :: "string \<Rightarrow> parsed_event list \<Rightarrow> string list" where
  "collect_ids dealId' [] = []"
| "collect_ids dealId' (ev # evs) =
     (if event_deal_id ev = Some dealId' \<and> \<not> falsy (audit_record_id ev)
      then or_empty (audit_record_id ev) # collect_ids dealId' evs
      else collect_ids dealId' evs)"

text \<open>\<open>x?.vec?.[0]\<close>\<close>

fun first_of_vec :: "string list option \<Rightarrow> string option" where
  "first_of_vec None = None"
| "first_of_vec (Some []) = None"
| "first_of_vec (Some (a # rest)) = Some a"

fun auditor_of :: "auditor_field \<Rightarrow> string option" where
  "auditor_of AuditorAbsent = None"
| "auditor_of (AuditorAddress a) = None"
| "auditor_of (AuditorOption v) = first_of_vec v"

definition toAuditRecord :: "string \<Rightarrow> move_fields \<Rightarrow> DataAuditRecord" where
  "toAuditRecord recordId flds =
     \<lparr>id' = recordId,
      dataId = or_empty (field_data_id flds),
      record_dealId = or_empty (field_deal_id flds),
      record_periodId = or_empty (field_period_id flds),
      record_uploader = or_empty (field_uploader flds),
      uploadTimestamp =
        (if falsy (field_upload_timestamp flds) then Num 0
         else parseInt (or_empty (field_upload_timestamp flds))),
      audited = (case field_audited flds of None \<Rightarrow> False | Some b \<Rightarrow> b),
      auditor = auditor_of (field_auditor flds),
      auditTimestamp =
        (case field_audit_timestamp flds of
           None \<Rightarrow> None
         | Some v \<Rightarrow>
             if falsy (first_of_vec v) then None
             else Some (parseInt (or_empty (first_of_vec v))))\<rparr>"

text \<open>One turn of the second loop: the inner \<open>try\<close> block. \<open>None\<close> is a turn that adds no
  record: the fetch threw (caught, logged), or it gave no data or no Move object.\<close>

definition fetchAuditRecord :: "sui_sdk \<Rightarrow> string \<Rightarrow> DataAuditRecord option" where
  "fetchAuditRecord sdk recordId =
     (case getObject sdk \<lparr>request_id = recordId, showContent = True, showType = False\<rparr> of
        Inl e \<Rightarrow> None
      | Inr obj \<Rightarrow>
          (case response_data obj of
             None \<Rightarrow> None
           | Some None \<Rightarrow> None
           | Some (Some Package) \<Rightarrow> None
           | Some (Some (MoveObject flds)) \<Rightarrow> Some (toAuditRecord recordId flds)))"

fun fetchAuditRecords :: "sui_sdk \<Rightarrow> string list \<Rightarrow> DataAuditRecord list" where
  "fetchAuditRecords sdk [] = []"
| "fetchAuditRecords sdk (recordId # rest) =
     (case fetchAuditRecord sdk recordId of
        None \<Rightarrow> fetchAuditRecords sdk rest
      | Some r \<Rightarrow> r # fetchAuditRecords sdk rest)"

definition getDealAuditRecords_body ::
  "config \<Rightarrow> sui_sdk \<Rightarrow> string \<Rightarrow> js_thrown + DataAuditRecord list" where
  "getDealAuditRecords_body cfg sdk dealId' =
     (if falsy (earnout_packageId cfg) then Inr []
      else case queryEvents sdk
                  \<lparr>MoveEventType = or_empty (earnout_packageId cfg)
                                      @ ''::earnout::DataAuditRecordCreated'',
                   limit = 1000\<rparr> of
        Inl e \<Rightarrow> Inl e
      | Inr events \<Rightarrow>
          (if collect_ids dealId' events = [] then Inr []
           else Inr (fetchAuditRecords sdk (collect_ids dealId' events))))"

definition getDealAuditRecords ::
  "config \<Rightarrow> sui_sdk \<Rightarrow> string \<Rightarrow> js_thrown + DataAuditRecord list" where
  "getDealAuditRecords cfg sdk dealId' =
     rethrow_query ''Failed to query audit records: '' (getDealAuditRecords_body cfg sdk dealId')"

definition verifyDealParticipant_body :: "config \<Rightarrow> sui_sdk \<Rightarrow> string \<Rightarrow> string \<Rightarrow> js_thrown + bool" where
  "verifyDealParticipant_body cfg sdk dealId' userAddress =
     (if falsy (earnout_packageId cfg) then Inr True
      else case getObject sdk \<lparr>request_id = dealId', showContent = True, showType = False\<rparr> of
        Inl e \<Rightarrow> Inl e
      | Inr dealObject \<Rightarrow>
          (case response_data dealObject of
             None \<Rightarrow> Inr False
           | Some None \<Rightarrow> Inr False
           | Some (Some Package) \<Rightarrow> Inr False
           | Some (Some (MoveObject flds)) \<Rightarrow>
               Inr (field_buyer flds = Some userAddress
                    \<or> field_seller flds = Some userAddress
                    \<or> field_auditor flds = AuditorAddress userAddress)))"

text \<open>\<open>try { body } catch (error) { return false }\<close>\<close>

definition verifyDealParticipant :: "config \<Rightarrow> sui_sdk \<Rightarrow> string \<Rightarrow> string \<Rightarrow> js_thrown + bool" where
  "verifyDealParticipant cfg sdk dealId' userAddress =
     (case verifyDealParticipant_body cfg sdk dealId' userAddress of
        Inl e \<Rightarrow> Inr False
      | Inr b \<Rightarrow> Inr b)"

section \<open>Example environments\<close>

text \<open>A configuration and SDK answers on which the methods are run below.\<close>

definition example_config :: config where
  "example_config =
     \<lparr>enableServerEncryption = True,
      seal_policyObjectId = Some ''0x2::earnout_seal_policy'',
      sui_backendPrivateKey = Some ''AQID'',
      walrus_maxFileSize = 4,
      walrus_storageEpochs = 3,
      earnout_packageId = Some ''0x2'',
      NODE_ENV = Some ''production''\<rparr>"

definition example_keypair :: Ed25519Keypair where
  "example_keypair = Keypair [1, 2, 3]"

definition example_seal_sdk :: seal_sdk where
  "example_seal_sdk =
     \<lparr>subtle_digest = (\<lambda>algorithm d. Inr (take 32 (d @ replicate 32 0))),
      sealClient_encrypt = (\<lambda>req. Inr (encrypt_data req)),
      EncryptedObject_parse = (\<lambda>d. Inr ''deal-1''),
      toSuiAddress = (\<lambda>kp. ''0xbackend''),
      SessionKey_create = (\<lambda>req. Inr (SessionKey (session_address req))),
      sealClient_fetchKeys = (\<lambda>req. Inr ()),
      sealClient_decrypt = (\<lambda>req. Inr (decrypt_data req))\<rparr>"

definition example_encryption_config :: SealEncryptionConfig where
  "example_encryption_config =
     \<lparr>policyObjectId = ''0x2::earnout_seal_policy'', dealId = ''deal-1''\<rparr>"

text \<open>A ledger client whose every query raises.\<close>

definition failing_sui_sdk :: sui_sdk where
  "failing_sui_sdk =
     \<lparr>getObject = (\<lambda>req. Inl (Error ''fetch failed'')),
      queryEvents = (\<lambda>req. Inl (Error ''fetch failed''))\<rparr>"

definition example_walrus_sdk :: walrus_sdk where
  "example_walrus_sdk =
     \<lparr>writeBlobToUploadRelay =
        (\<lambda>req. Inr \<lparr>relay_blobId = ''blob-1'', certificate_json = ''[1,2,3]''\<rparr>),
      systemState_epoch = Inr 7,
      getVerifiedBlobStatus = (\<lambda>b. Inr ()),
      getBlobMetadata =
        (\<lambda>b. Inr \<lparr>unencoded_length = 3,
                    hashes =
                      (if b = ''blob-1''
                       then Some [Some \<lparr>kind = ''Digest'', Digest = Some [0xab, 0x01]\<rparr>]
                       else Some [Some \<lparr>kind = ''Empty'', Digest = None\<rparr>])\<rparr>)\<rparr>"

text \<open>The values of one blob record, and the record written with the snake-case field
  names and with the camel-case ones.\<close>

record blob_values =
  value_blobId :: string
  value_periodId :: string
  value_dataType :: string
  value_size :: int
  value_uploadedAt :: int
  value_uploader :: string

definition snake_case_blob :: "blob_values \<Rightarrow> walrus_blob" where
  "snake_case_blob v =
     \<lparr>blob_id = Some (value_blobId v), blob_blobId = None,
      period_id = Some (value_periodId v), blob_periodId = None,
      data_type = Some (value_dataType v), blob_dataType = None,
      blob_size = Some (value_size v),
      uploaded_at = Some (value_uploadedAt v), blob_uploadedAt = None,
      uploader = Some (value_uploader v), blob_uploaderAddress = None\<rparr>"

definition camelCase_blob :: "blob_values \<Rightarrow> walrus_blob" where
  "camelCase_blob v =
     \<lparr>blob_id = None, blob_blobId = Some (value_blobId v),
      period_id = None, blob_periodId = Some (value_periodId v),
      data_type = None, blob_dataType = Some (value_dataType v),
      blob_size = Some (value_size v),
      uploaded_at = None, blob_uploadedAt = Some (value_uploadedAt v),
      uploader = None, blob_uploaderAddress = Some (value_uploader v)\<rparr>"

text \<open>The record written with a choice of name for each field that has two: the upload
  time stands in seconds under \<open>uploaded_at\<close> and in milliseconds under \<open>uploadedAt\<close>.\<close>

record naming =
  snake_blob_id :: bool
  snake_period_id :: bool
  snake_data_type :: bool
  snake_uploaded_at :: bool
  snake_uploader :: bool

definition named_blob :: "naming \<Rightarrow> blob_values \<Rightarrow> walrus_blob" where
  "named_blob n v =
     \<lparr>blob_id = (if snake_blob_id n then Some (value_blobId v) else None),
      blob_blobId = (if snake_blob_id n then None else Some (value_blobId v)),
      period_id = (if snake_period_id n then Some (value_periodId v) else None),
      blob_periodId = (if snake_period_id n then None else Some (value_periodId v)),
      data_type = (if snake_data_type n then Some (value_dataType v) else None),
      blob_dataType = (if snake_data_type n then None else Some (value_dataType v)),
      blob_size = Some (value_size v),
      uploaded_at = (if snake_uploaded_at n then Some (value_uploadedAt v) else None),
      blob_uploadedAt = (if snake_uploaded_at n then None else Some (1000 * value_uploadedAt v)),
      uploader = (if snake_uploader n then Some (value_uploader v) else None),
      blob_uploaderAddress = (if snake_uploader n then None else Some (value_uploader v))\<rparr>"

definition all_snake_case :: naming where
  "all_snake_case =
     \<lparr>snake_blob_id = True, snake_period_id = True, snake_data_type = True,
      snake_uploaded_at = True, snake_uploader = True\<rparr>"

definition all_camelCase :: naming where
  "all_camelCase =
     \<lparr>snake_blob_id = False, snake_period_id = False, snake_data_type = False,
      snake_uploaded_at = False, snake_uploader = False\<rparr>"

definition example_values :: blob_values where
  "example_values =
     \<lparr>value_blobId = ''blob-1'', value_periodId = ''period-1'', value_dataType = ''report'',
      value_size = 10, value_uploadedAt = 1700000000, value_uploader = ''0xseller''\<rparr>"

text \<open>A blob record that carries no blob identifier under either name.\<close>

definition unnamed_blob :: walrus_blob where
  "unnamed_blob =
     \<lparr>blob_id = None, blob_blobId = None,
      period_id = Some ''period-1'', blob_periodId = None,
      data_type = Some ''report'', blob_dataType = None,
      blob_size = Some 10,
      uploaded_at = Some 1700000000, blob_uploadedAt = None,
      uploader = Some ''0xseller'', blob_uploaderAddress = None\<rparr>"

definition deal_fields :: "walrus_blob list \<Rightarrow> move_fields" where
  "deal_fields blobs =
     \<lparr>field_buyer = Some ''0xbuyer'', field_seller = Some ''0xseller'',
      field_auditor = AuditorAddress ''0xauditor'', field_walrus_blobs = Some blobs,
      field_data_id = None, field_deal_id = None, field_period_id = None,
      field_uploader = None, field_upload_timestamp = None, field_audited = None,
      field_audit_timestamp = None\<rparr>"

text \<open>A ledger on which every object is a Deal with the given blob records.\<close>

definition deal_sui_sdk :: "walrus_blob list \<Rightarrow> sui_sdk" where
  "deal_sui_sdk blobs =
     \<lparr>getObject = (\<lambda>req. Inr \<lparr>response_data = Some (Some (MoveObject (deal_fields blobs)))\<rparr>),
      queryEvents = (\<lambda>req. Inr [])\<rparr>"

definition audit_fields :: move_fields where
  "audit_fields =
     \<lparr>field_buyer = None, field_seller = None,
      field_auditor = AuditorOption (Some [''0xauditor'']), field_walrus_blobs = None,
      field_data_id = Some ''blob-1'', field_deal_id = Some ''deal-1'',
      field_period_id = Some ''period-1'', field_uploader = Some ''0xseller'',
      field_upload_timestamp = Some ''1700000000000'', field_audited = Some True,
      field_audit_timestamp = Some (Some [''1700000100000''])\<rparr>"

text \<open>A ledger with five audit-record events of \<open>deal-1\<close>, on which the fetch of
  \<open>rec-3\<close> raises and every other fetch gives an audit record.\<close>

definition audit_sui_sdk :: sui_sdk where
  "audit_sui_sdk =
     \<lparr>getObject =
        (\<lambda>req. if request_id req = ''rec-3'' then Inl (Error ''fetch failed'')
               else Inr \<lparr>response_data = Some (Some (MoveObject audit_fields))\<rparr>),
      queryEvents =
        (\<lambda>req. Inr (map (\<lambda>r. \<lparr>audit_record_id = Some r, event_deal_id = Some ''deal-1''\<rparr>)
                       [''rec-1'', ''rec-2'', ''rec-3'', ''rec-4'', ''rec-5'']))\<rparr>"

section \<open>SealService: preconditions, the approval transaction, access verification\<close>

lemma fst_rethrow: "fst (rethrow p r) = fst r"
  by (simp add: rethrow_def split: sum.splits)

lemma decrypt_body_txBytes:
  "FetchKeys req \<in> set (fst (decrypt_body cfg sdk kp now data)) \<Longrightarrow> fetch_txBytes req = []"
  by (auto simp: decrypt_body_def Let_def split: sum.splits option.splits)

text \<open>
  C1. Every key-fetch request that \<open>decrypt\<close> sends carries a zero-length approval
  transaction; the calls and the result of \<open>decrypt\<close> do not depend on \<open>userAddress\<close>;
  and once the ciphertext is parsed and the session is open, such a request is sent.
\<close>

theorem decrypt_empty_approval:
  "(\<forall>req. FetchKeys req \<in> set (fst (decrypt cfg sdk kp now ct d u)) \<longrightarrow> fetch_txBytes req = [])
   \<and> decrypt cfg sdk kp now ct d u1 = decrypt cfg sdk kp now ct d u2
   \<and> (enableServerEncryption cfg \<and> kp = Some k \<and> EncryptedObject_parse sdk ct = Inr i
        \<and> seal_policyObjectId cfg = Some pid
        \<and> SessionKey_create sdk \<lparr>session_address = toSuiAddress sdk k,
               session_packageId = split_first ''::'' pid, session_ttlMin = 10,
               session_signer = k\<rparr> = Inr sk
      \<longrightarrow> FetchKeys \<lparr>fetch_ids = [i], fetch_txBytes = [], fetch_sessionKey = sk,
                      fetch_threshold = 2\<rparr> \<in> set (fst (decrypt cfg sdk kp now ct d u)))"
proof (intro conjI allI impI)
  fix req
  assume "FetchKeys req \<in> set (fst (decrypt cfg sdk kp now ct d u))"
  then show "fetch_txBytes req = []"
    by (auto simp: decrypt_def fst_rethrow dest: decrypt_body_txBytes
             split: if_splits option.splits)
next
  show "decrypt cfg sdk kp now ct d u1 = decrypt cfg sdk kp now ct d u2"
    by (simp add: decrypt_def)
next
  assume "enableServerEncryption cfg \<and> kp = Some k \<and> EncryptedObject_parse sdk ct = Inr i
        \<and> seal_policyObjectId cfg = Some pid
        \<and> SessionKey_create sdk \<lparr>session_address = toSuiAddress sdk k,
               session_packageId = split_first ''::'' pid, session_ttlMin = 10,
               session_signer = k\<rparr> = Inr sk"
  then show "FetchKeys \<lparr>fetch_ids = [i], fetch_txBytes = [], fetch_sessionKey = sk,
                      fetch_threshold = 2\<rparr> \<in> set (fst (decrypt cfg sdk kp now ct d u))"
    by (auto simp: decrypt_def fst_rethrow decrypt_body_def Let_def split: sum.splits)
qed

theorem decrypt_empty_approval_witness:
  "FetchKeys \<lparr>fetch_ids = [''deal-1''], fetch_txBytes = [],
              fetch_sessionKey = SessionKey ''0xbackend'', fetch_threshold = 2\<rparr>
     \<in> set (fst (decrypt example_config example_seal_sdk (Some example_keypair) 0 [1, 2, 3]
                   ''deal-1'' ''0xbuyer''))
   \<and> decrypt example_config example_seal_sdk (Some example_keypair) 0 [1, 2, 3] ''deal-1'' ''0xbuyer''
     = decrypt example_config example_seal_sdk (Some example_keypair) 0 [1, 2, 3] ''deal-1''
         ''0xstranger''"
proof -
  have run: "enableServerEncryption example_config \<and> Some example_keypair = Some example_keypair
      \<and> EncryptedObject_parse example_seal_sdk [1, 2, 3] = Inr ''deal-1''
      \<and> seal_policyObjectId example_config = Some ''0x2::earnout_seal_policy''
      \<and> SessionKey_create example_seal_sdk
           \<lparr>session_address = toSuiAddress example_seal_sdk example_keypair,
            session_packageId = split_first ''::'' ''0x2::earnout_seal_policy'',
            session_ttlMin = 10, session_signer = example_keypair\<rparr>
          = Inr (SessionKey ''0xbackend'')"
    by (simp add: example_config_def example_seal_sdk_def)
  from run decrypt_empty_approval [where cfg = example_config and sdk = example_seal_sdk
      and kp = "Some example_keypair" and k = example_keypair and now = 0 and ct = "[1, 2, 3]"
      and d = "''deal-1''" and u = "''0xbuyer''" and ?u1.0 = "''0xbuyer''"
      and ?u2.0 = "''0xstranger''" and i = "''deal-1''" and pid = "''0x2::earnout_seal_policy''"
      and sk = "SessionKey ''0xbackend''"]
  show ?thesis by blast
qed

text \<open>
  C8. \<open>encrypt\<close> throws without any SDK call when server-side encryption is disabled or no
  policy identifier is configured; \<open>decrypt\<close> throws without any SDK call when server-side
  encryption is disabled or the service holds no backend keypair, which is the case when
  no private key is configured.
\<close>

theorem encrypt_decrypt_fail_fast:
  "(\<not> enableServerEncryption cfg \<or> falsy (seal_policyObjectId cfg)
      \<longrightarrow> (\<exists>m. encrypt cfg sdk now pt ec = ([], Inl (Error m))))
   \<and> (\<not> enableServerEncryption cfg \<or> kp = None
      \<longrightarrow> (\<exists>m. decrypt cfg sdk kp now ct d u = ([], Inl (Error m))))
   \<and> (falsy (sui_backendPrivateKey cfg)
      \<longrightarrow> (\<exists>m. decrypt cfg sdk (init_backendKeypair b64 fsk cfg) now ct d u = ([], Inl (Error m))))"
  by (auto simp: encrypt_def decrypt_def init_backendKeypair_def)

theorem encrypt_decrypt_fail_fast_witness:
  "falsy (seal_policyObjectId (example_config\<lparr>seal_policyObjectId := None\<rparr>))
   \<and> (\<exists>m. encrypt (example_config\<lparr>seal_policyObjectId := None\<rparr>) example_seal_sdk 0 [1, 2, 3]
             example_encryption_config = ([], Inl (Error m)))
   \<and> (\<exists>m. decrypt example_config example_seal_sdk None 0 [1, 2, 3] ''deal-1'' ''0xbuyer''
             = ([], Inl (Error m)))
   \<and> \<not> enableServerEncryption (example_config\<lparr>enableServerEncryption := False\<rparr>)
   \<and> (\<exists>m. encrypt (example_config\<lparr>enableServerEncryption := False\<rparr>) example_seal_sdk 0 [1, 2, 3]
             example_encryption_config = ([], Inl (Error m)))
   \<and> (\<exists>m. decrypt (example_config\<lparr>enableServerEncryption := False\<rparr>) example_seal_sdk
             (Some example_keypair) 0 [1, 2, 3] ''deal-1'' ''0xbuyer'' = ([], Inl (Error m)))
   \<and> falsy (sui_backendPrivateKey (example_config\<lparr>sui_backendPrivateKey := Some []\<rparr>))
   \<and> (\<exists>m. decrypt (example_config\<lparr>sui_backendPrivateKey := Some []\<rparr>) example_seal_sdk
             (init_backendKeypair (\<lambda>s. []) (\<lambda>bytes. Inr (Keypair bytes))
                (example_config\<lparr>sui_backendPrivateKey := Some []\<rparr>))
             0 [1, 2, 3] ''deal-1'' ''0xbuyer'' = ([], Inl (Error m)))"
proof -
  note unset = encrypt_decrypt_fail_fast [where cfg = "example_config\<lparr>seal_policyObjectId := None\<rparr>"
      and sdk = example_seal_sdk and now = 0 and pt = "[1, 2, 3]"
      and ec = example_encryption_config]
  note no_keypair = encrypt_decrypt_fail_fast [where cfg = example_config
      and sdk = example_seal_sdk and now = 0 and kp = None and ct = "[1, 2, 3]"
      and d = "''deal-1''" and u = "''0xbuyer''"]
  note disabled = encrypt_decrypt_fail_fast [where cfg = "example_config\<lparr>enableServerEncryption := False\<rparr>"
      and sdk = example_seal_sdk and now = 0 and pt = "[1, 2, 3]"
      and ec = example_encryption_config and kp = "Some example_keypair" and ct = "[1, 2, 3]"
      and d = "''deal-1''" and u = "''0xbuyer''"]
  note no_key = encrypt_decrypt_fail_fast [where cfg = "example_config\<lparr>sui_backendPrivateKey := Some []\<rparr>"
      and sdk = example_seal_sdk and now = 0 and ct = "[1, 2, 3]"
      and d = "''deal-1''" and u = "''0xbuyer''" and ?b64.0 = "\<lambda>s. []"
      and fsk = "\<lambda>bytes. Inr (Keypair bytes)"]
  from unset no_keypair disabled no_key show ?thesis by simp
qed

text \<open>
  C3. \<open>verifyAccess\<close> looks at the environment only: under \<open>NODE_ENV = development\<close> it
  grants access with the role \<open>buyer\<close>, otherwise it denies with the reason
  \<open>Access verification not yet implemented\<close>, whatever the deal, the address and the
  required role; in both branches it calls neither client.
\<close>

theorem verifyAccess_unconditional:
  "(NODE_ENV cfg = Some ''development''
      \<longrightarrow> verifyAccess cfg sdk d u r =
            ([], Inr \<lparr>hasAccess = True, role = Some ''buyer'', reason = None\<rparr>))
   \<and> (NODE_ENV cfg \<noteq> Some ''development''
      \<longrightarrow> verifyAccess cfg sdk d u r =
            ([], Inr \<lparr>hasAccess = False, role = None,
                      reason = Some ''Access verification not yet implemented''\<rparr>))"
  by (simp add: verifyAccess_def)

theorem verifyAccess_unconditional_witness:
  "verifyAccess (example_config\<lparr>NODE_ENV := Some ''development''\<rparr>) example_seal_sdk ''deal-1''
      ''0xstranger'' (Some ''auditor'')
     = ([], Inr \<lparr>hasAccess = True, role = Some ''buyer'', reason = None\<rparr>)
   \<and> verifyAccess example_config example_seal_sdk ''deal-1'' ''0xbuyer'' None
     = ([], Inr \<lparr>hasAccess = False, role = None,
                 reason = Some ''Access verification not yet implemented''\<rparr>)"
  using verifyAccess_unconditional [where cfg = "example_config\<lparr>NODE_ENV := Some ''development''\<rparr>"
      and sdk = example_seal_sdk and d = "''deal-1''" and u = "''0xstranger''"
      and r = "Some ''auditor''"]
    verifyAccess_unconditional [where cfg = example_config and sdk = example_seal_sdk
      and d = "''deal-1''" and u = "''0xbuyer''" and r = None]
  by (simp add: example_config_def)

section \<open>SuiService: participant verification\<close>

text \<open>
  C2. \<open>verifyDealParticipant\<close> returns true for every deal and address when no ledger
  package is configured, returns false when the package is configured and the object
  query raises, and never throws.
\<close>

theorem verifyDealParticipant_open_closed:
  "(falsy (earnout_packageId cfg) \<longrightarrow> verifyDealParticipant cfg sdk d a = Inr True)
   \<and> (\<not> falsy (earnout_packageId cfg)
        \<and> getObject sdk \<lparr>request_id = d, showContent = True, showType = False\<rparr> = Inl e
      \<longrightarrow> verifyDealParticipant cfg sdk d a = Inr False)
   \<and> (\<exists>b. verifyDealParticipant cfg sdk d a = Inr b)"
  by (auto simp: verifyDealParticipant_def verifyDealParticipant_body_def
           split: sum.splits option.splits parsed_data.splits)

theorem verifyDealParticipant_open_closed_witness:
  "verifyDealParticipant (example_config\<lparr>earnout_packageId := None\<rparr>) failing_sui_sdk
      ''deal-1'' ''not an address'' = Inr True
   \<and> verifyDealParticipant example_config failing_sui_sdk ''deal-1'' ''0xbuyer'' = Inr False"
  using verifyDealParticipant_open_closed [where cfg = "example_config\<lparr>earnout_packageId := None\<rparr>"
      and sdk = failing_sui_sdk and d = "''deal-1''" and a = "''not an address''"]
    verifyDealParticipant_open_closed [where cfg = example_config and sdk = failing_sui_sdk
      and d = "''deal-1''" and a = "''0xbuyer''" and e = "Error ''fetch failed''"]
  by (simp add: example_config_def failing_sui_sdk_def)

section \<open>SealService: the commitment\<close>

text \<open>Every byte prints as two lower-case hexadecimal digits.\<close>

lemma digit_char_hex: "d < 16 \<Longrightarrow> lower_hex_char (digit_char d)"
  unfolding lower_hex_char_def digit_char_def
  by (cases "d") (auto simp: nth_Cons' less_Suc_eq numeral_eq_Suc)

lemma digits_of_digit: "n < radix \<Longrightarrow> digits_of radix n = [digit_char n]"
  by (subst digits_of.simps) simp

lemma digits_of_step:
  "2 \<le> radix \<Longrightarrow> radix \<le> n
    \<Longrightarrow> digits_of radix n = digits_of radix (n div radix) @ [digit_char (n mod radix)]"
  by (subst digits_of.simps) simp

lemma byte_hex_digits:
  "\<exists>hi lo. hi < 16 \<and> lo < 16 \<and> byte_hex b = [digit_char hi, digit_char lo]"
proof (cases "unat b < 16")
  case True
  then have "byte_hex b = [digit_char 0, digit_char (unat b)]"
    by (simp add: byte_hex_def padStart_def digits_of_digit digit_char_def)
  with True show ?thesis
    by (intro exI [of _ 0] exI [of _ "unat b"]) simp
next
  case False
  have "unat b < 2 ^ 8" using unsigned_less [of b, where ?'a = nat] by simp
  then have hi: "unat b div 16 < 16" by simp
  have lo: "unat b mod 16 < 16" by simp
  from False have "digits_of 16 (unat b)
      = digits_of 16 (unat b div 16) @ [digit_char (unat b mod 16)]"
    by (intro digits_of_step) simp_all
  with hi have "byte_hex b = [digit_char (unat b div 16), digit_char (unat b mod 16)]"
    by (simp add: byte_hex_def padStart_def digits_of_digit)
  with hi lo show ?thesis by blast
qed

lemma length_byte_hex: "length (byte_hex b) = 2"
  using byte_hex_digits [of b] by auto

lemma set_byte_hex: "c \<in> set (byte_hex b) \<Longrightarrow> lower_hex_char c"
  using byte_hex_digits [of b] by (auto dest: digit_char_hex)

lemma length_hex_of_bytes: "length (hex_of_bytes bs) = 2 * length bs"
  by (induction bs) (simp_all add: hex_of_bytes_def length_byte_hex)

lemma set_hex_of_bytes: "c \<in> set (hex_of_bytes bs) \<Longrightarrow> lower_hex_char c"
  by (auto simp: hex_of_bytes_def dest: set_byte_hex)

text \<open>
  C9. When \<open>encrypt\<close> succeeds, the commitment of its result is \<open>sha256:\<close> followed by
  the hexadecimal print of the digest that the platform computes, under the algorithm name
  \<open>SHA-256\<close>, of the ciphertext bytes of the result; a SHA-256 digest has 32 bytes, so this
  print has 64 characters, each a lower-case hexadecimal digit.
\<close>

theorem encrypt_commitment:
  assumes "encrypt cfg sdk now pt ec = (calls, Inr r)"
    and "\<forall>h. subtle_digest sdk ''SHA-256'' (ciphertext r) = Inr h \<longrightarrow> length h = 32"
  shows "\<exists>h. subtle_digest sdk ''SHA-256'' (ciphertext r) = Inr h
             \<and> commitment r = ''sha256:'' @ hex_of_bytes h
             \<and> length (hex_of_bytes h) = 64
             \<and> (\<forall>c \<in> set (hex_of_bytes h). lower_hex_char c)"
proof -
  from assms(1) have "snd (encrypt_body sdk now pt ec) = Inr r"
    by (auto simp: encrypt_def rethrow_def split: if_splits sum.splits)
  then obtain h where h: "subtle_digest sdk ''SHA-256'' (ciphertext r) = Inr h"
    and c: "commitment r = ''sha256:'' @ hex_of_bytes h"
    by (auto simp: encrypt_body_def generateCommitment_def Let_def split: sum.splits)
  from assms(2) h have "length h = 32" by blast
  then have "length (hex_of_bytes h) = 64" by (simp add: length_hex_of_bytes)
  with h c show ?thesis by (auto dest: set_hex_of_bytes)
qed

theorem encrypt_commitment_witness:
  "\<exists>calls r. encrypt example_config example_seal_sdk 0 [97, 98, 99] example_encryption_config
                = (calls, Inr r)
     \<and> commitment r = ''sha256:6162630000000000000000000000000000000000000000000000000000000000''"
proof -
  have hex: "hex_of_bytes (take 32 ([97, 98, 99] @ replicate 32 0))
      = ''6162630000000000000000000000000000000000000000000000000000000000''"
    by code_simp
  obtain calls r where run:
    "encrypt example_config example_seal_sdk 0 [97, 98, 99] example_encryption_config = (calls, Inr r)"
    and ct: "ciphertext r = [97, 98, 99]"
    by (simp add: encrypt_def encrypt_body_def generateCommitment_def rethrow_def
                  example_config_def example_seal_sdk_def Date_toISOString_def)
  have len: "\<forall>h. subtle_digest example_seal_sdk ''SHA-256'' (ciphertext r) = Inr h \<longrightarrow> length h = 32"
    by (auto simp: example_seal_sdk_def)
  from encrypt_commitment [OF run len] ct hex
  have "commitment r = ''sha256:6162630000000000000000000000000000000000000000000000000000000000''"
    by (auto simp: example_seal_sdk_def)
  with run show ?thesis by blast
qed

section \<open>WalrusService: the metadata commitment and the size limit\<close>

text \<open>
  C10. When the three SDK queries of \<open>getBlobInfo\<close> answer, it returns a result whatever the
  shape of the hashes: the commitment is \<open>walrus:unknown\<close> unless the first entry of
  \<open>hashes\<close> has a primary hash tagged \<open>Digest\<close> with its bytes, and then it is
  \<open>walrus:\<close> followed by the hexadecimal print of these bytes.
\<close>

theorem getBlobInfo_commitment:
  assumes "getVerifiedBlobStatus sdk b = Inr st"
    and "getBlobMetadata sdk b = Inr md"
    and "systemState_epoch sdk = Inr epoch"
    and "\<bar>now\<bar> \<le> 8640000000000000"
  shows "\<exists>info. snd (getBlobInfo sdk now b) = Inr info
           \<and> ((\<forall>ph rest. hashes md = Some (Some ph # rest) \<longrightarrow> kind ph \<noteq> ''Digest'' \<or> Digest ph = None)
                 \<longrightarrow> info_commitment info = ''walrus:unknown'')
           \<and> (\<forall>ph rest bytes. hashes md = Some (Some ph # rest) \<and> kind ph = ''Digest''
                   \<and> Digest ph = Some bytes
                 \<longrightarrow> info_commitment info = ''walrus:'' @ hex_of_bytes bytes)"
proof -
  from assms have "snd (getBlobInfo sdk now b)
      = Inr \<lparr>info_blobId = b, info_size = unencoded_length md,
             info_commitment = formatMetadata md, info_uploadedAt = iso_string now,
             info_storageEpochs = 0, info_endEpoch = epoch\<rparr>"
    by (simp add: getBlobInfo_def getBlobInfo_body_def rethrow_def Date_toISOString_def)
  moreover have "(\<forall>ph rest. hashes md = Some (Some ph # rest) \<longrightarrow> kind ph \<noteq> ''Digest'' \<or> Digest ph = None)
      \<longrightarrow> formatMetadata md = ''walrus:unknown''"
    by (auto simp: formatMetadata_def split: option.splits list.splits)
  moreover have "\<forall>ph rest bytes. hashes md = Some (Some ph # rest) \<and> kind ph = ''Digest''
                   \<and> Digest ph = Some bytes
                 \<longrightarrow> formatMetadata md = ''walrus:'' @ hex_of_bytes bytes"
    by (auto simp: formatMetadata_def)
  ultimately show ?thesis by simp
qed

theorem getBlobInfo_commitment_witness:
  "(\<exists>info. snd (getBlobInfo example_walrus_sdk 0 ''blob-2'') = Inr info
        \<and> info_commitment info = ''walrus:unknown'')
   \<and> (\<exists>info. snd (getBlobInfo example_walrus_sdk 0 ''blob-1'') = Inr info
        \<and> info_commitment info = ''walrus:ab01'')"
proof -
  have hex: "hex_of_bytes [0xab, 0x01] = ''ab01''" by code_simp
  have calls: "getVerifiedBlobStatus example_walrus_sdk b = Inr ()"
    "systemState_epoch example_walrus_sdk = Inr 7" "\<bar>0 :: int\<bar> \<le> 8640000000000000" for b
    by (simp_all add: example_walrus_sdk_def)
  have md1: "getBlobMetadata example_walrus_sdk ''blob-1''
      = Inr \<lparr>unencoded_length = 3,
             hashes = Some [Some \<lparr>kind = ''Digest'', Digest = Some [0xab, 0x01]\<rparr>]\<rparr>"
    by (simp add: example_walrus_sdk_def)
  have md2: "getBlobMetadata example_walrus_sdk ''blob-2''
      = Inr \<lparr>unencoded_length = 3, hashes = Some [Some \<lparr>kind = ''Empty'', Digest = None\<rparr>]\<rparr>"
    by (simp add: example_walrus_sdk_def)
  from getBlobInfo_commitment [OF calls(1) md2 calls(2) calls(3)]
  have "\<exists>info. snd (getBlobInfo example_walrus_sdk 0 ''blob-2'') = Inr info
        \<and> info_commitment info = ''walrus:unknown''"
    by simp
  moreover from getBlobInfo_commitment [OF calls(1) md1 calls(2) calls(3)] hex
  have "\<exists>info. snd (getBlobInfo example_walrus_sdk 0 ''blob-1'') = Inr info
        \<and> info_commitment info = ''walrus:ab01''"
    by simp
  ultimately show ?thesis by blast
qed

text \<open>
  C5, as claimed: a payload whose size is at or above the maximum is rejected before any
  network call. The test of \<open>upload\<close> is \<open>data.length > maxFileSize\<close>: with a maximum of
  4 bytes, a payload of exactly 4 bytes is sent to the upload relay and the upload succeeds.
\<close>

theorem upload_at_maximum_counterexample:
  "int (length [1, 2, 3, 4 :: byte]) \<ge> walrus_maxFileSize example_config
   \<and> upload example_config example_walrus_sdk (Some example_keypair) 0 [1, 2, 3, 4] ()
     = ([WriteBlobToUploadRelay
           \<lparr>relay_blob = [1, 2, 3, 4], relay_deletable = True, relay_epochs = 3,
            relay_signer = example_keypair\<rparr>,
         SystemState],
        Inr \<lparr>upload_blobId = ''blob-1'', upload_commitment = ''walrus:[1,2,3]'',
             upload_size = 4, upload_uploadedAt = ''1970-01-01T00:00:00.000Z'',
             upload_storageEpochs = 3, upload_endEpoch = 10\<rparr>)"
  by code_simp

text \<open>
  C5, amended: for every payload whose size is strictly above the configured maximum,
  \<open>upload\<close> fails with the error that names the size and the maximum, and issues no call.
\<close>

theorem upload_rejects_oversized:
  "int (length data) > walrus_maxFileSize cfg
    \<Longrightarrow> upload cfg sdk kp now data md
        = ([], Inl (Error (''Failed to upload to Walrus: File size '' @ toString (int (length data))
                            @ '' exceeds maximum allowed '' @ toString (walrus_maxFileSize cfg)
                            @ '' bytes'')))"
  by (simp add: upload_def upload_body_def rethrow_def)

theorem upload_rejects_oversized_witness:
  "int (length [1, 2, 3, 4, 5 :: byte]) > walrus_maxFileSize example_config
   \<and> upload example_config example_walrus_sdk (Some example_keypair) 0 [1, 2, 3, 4, 5] ()
     = ([], Inl (Error ''Failed to upload to Walrus: File size 5 exceeds maximum allowed 4 bytes''))"
proof -
  have big: "int (length [1, 2, 3, 4, 5 :: byte]) > walrus_maxFileSize example_config"
    by (simp add: example_config_def)
  have msg: "toString (int (length [1, 2, 3, 4, 5 :: byte])) = ''5''"
    "toString (walrus_maxFileSize example_config) = ''4''"
    by code_simp+
  from upload_rejects_oversized [OF big, of example_walrus_sdk "Some example_keypair" 0 "()"] big msg
  show ?thesis by simp
qed

section \<open>SuiService: blob references\<close>

lemma map_throwing_Inr:
  "map_throwing f xs = Inr ys \<Longrightarrow> list_all2 (\<lambda>x y. f x = Inr y) xs ys"
  by (induction xs arbitrary: ys) (auto split: sum.splits)

lemma map_throwing_cong:
  "(\<And>x. x \<in> set xs \<Longrightarrow> f (g x) = f (h x)) \<Longrightarrow> map_throwing f (map g xs) = map_throwing f (map h xs)"
  by (induction xs) (auto split: sum.splits)

lemma rethrow_query_Inr: "rethrow_query p r = Inr x \<longleftrightarrow> r = Inr x"
  by (simp add: rethrow_query_def split: sum.splits)

lemma toBlobReference_blobId:
  "toBlobReference now b = Inr r \<Longrightarrow>
     blobId r = (if \<not> falsy (blob_id b) then or_empty (blob_id b)
                 else if \<not> falsy (blob_blobId b) then or_empty (blob_blobId b)
                 else [])"
  by (cases "blob_id b"; cases "blob_blobId b")
     (auto simp: toBlobReference_def or_else_def or_empty_def split: sum.splits)

text \<open>
  C4, as claimed: every returned blob reference has a non-empty blob identifier. A record
  that carries neither \<open>blob_id\<close> nor \<open>blobId\<close> is returned with the empty string as its
  identifier.
\<close>

theorem blob_without_identifier_counterexample:
  "getDealBlobReferences example_config (deal_sui_sdk [unnamed_blob]) 0 ''deal-1''
     = Inr [\<lparr>blobId = [], periodId = ''period-1'', dataType = ''report'', size' = 10,
             uploadedAt = ''2023-11-14T22:13:20.000Z'', uploaderAddress = ''0xseller''\<rparr>]"
  by code_simp

text \<open>
  C4, amended: \<open>getDealBlobReferences\<close> returns one reference per record of the Deal object,
  in order; its blob identifier is the record's \<open>blob_id\<close> when that is a non-empty string,
  else the record's \<open>blobId\<close> when that is a non-empty string, else the empty string. So the
  identifier is non-empty exactly when the record carries a non-empty identifier under one
  of the two names.
\<close>

theorem blob_identifier_of_record:
  assumes "\<not> falsy (earnout_packageId cfg)"
    and "getObject sdk \<lparr>request_id = d, showContent = True, showType = True\<rparr> = Inr obj"
    and "response_data obj = Some (Some (MoveObject flds))"
    and "field_walrus_blobs flds = Some blobs"
    and "getDealBlobReferences cfg sdk now d = Inr refs"
  shows "list_all2
           (\<lambda>b r. blobId r = (if \<not> falsy (blob_id b) then or_empty (blob_id b)
                               else if \<not> falsy (blob_blobId b) then or_empty (blob_blobId b)
                               else [])
                  \<and> (blobId r \<noteq> [] \<longleftrightarrow> \<not> falsy (blob_id b) \<or> \<not> falsy (blob_blobId b)))
           blobs refs"
proof -
  from assms have "map_throwing (toBlobReference now) blobs = Inr refs"
    by (simp add: getDealBlobReferences_def getDealBlobReferences_body_def rethrow_query_Inr)
  then have "list_all2 (\<lambda>b r. toBlobReference now b = Inr r) blobs refs"
    by (rule map_throwing_Inr)
  then show ?thesis
  proof (rule list_all2_mono)
    fix b r
    assume "toBlobReference now b = Inr r"
    then have eq: "blobId r = (if \<not> falsy (blob_id b) then or_empty (blob_id b)
                 else if \<not> falsy (blob_blobId b) then or_empty (blob_blobId b)
                 else [])"
      by (rule toBlobReference_blobId)
    then show "blobId r = (if \<not> falsy (blob_id b) then or_empty (blob_id b)
                               else if \<not> falsy (blob_blobId b) then or_empty (blob_blobId b)
                               else [])
                  \<and> (blobId r \<noteq> [] \<longleftrightarrow> \<not> falsy (blob_id b) \<or> \<not> falsy (blob_blobId b))"
      by (cases "blob_id b"; cases "blob_blobId b") (auto simp: or_empty_def)
  qed
qed

theorem blob_identifier_of_record_witness:
  "list_all2
     (\<lambda>b r. blobId r = (if \<not> falsy (blob_id b) then or_empty (blob_id b)
                         else if \<not> falsy (blob_blobId b) then or_empty (blob_blobId b)
                         else [])
            \<and> (blobId r \<noteq> [] \<longleftrightarrow> \<not> falsy (blob_id b) \<or> \<not> falsy (blob_blobId b)))
     [snake_case_blob example_values, unnamed_blob]
     [\<lparr>blobId = ''blob-1'', periodId = ''period-1'', dataType = ''report'', size' = 10,
       uploadedAt = ''2023-11-14T22:13:20.000Z'', uploaderAddress = ''0xseller''\<rparr>,
      \<lparr>blobId = [], periodId = ''period-1'', dataType = ''report'', size' = 10,
       uploadedAt = ''2023-11-14T22:13:20.000Z'', uploaderAddress = ''0xseller''\<rparr>]"
proof -
  have cfg: "\<not> falsy (earnout_packageId example_config)"
    by (simp add: example_config_def)
  have obj: "getObject (deal_sui_sdk [snake_case_blob example_values, unnamed_blob])
        \<lparr>request_id = ''deal-1'', showContent = True, showType = True\<rparr>
      = Inr \<lparr>response_data = Some (Some (MoveObject
               (deal_fields [snake_case_blob example_values, unnamed_blob])))\<rparr>"
    by (simp add: deal_sui_sdk_def)
  have run: "getDealBlobReferences example_config
        (deal_sui_sdk [snake_case_blob example_values, unnamed_blob]) 0 ''deal-1''
      = Inr [\<lparr>blobId = ''blob-1'', periodId = ''period-1'', dataType = ''report'', size' = 10,
               uploadedAt = ''2023-11-14T22:13:20.000Z'', uploaderAddress = ''0xseller''\<rparr>,
             \<lparr>blobId = [], periodId = ''period-1'', dataType = ''report'', size' = 10,
               uploadedAt = ''2023-11-14T22:13:20.000Z'', uploaderAddress = ''0xseller''\<rparr>]"
    by code_simp
  have data: "response_data \<lparr>response_data = Some (Some (MoveObject
               (deal_fields [snake_case_blob example_values, unnamed_blob])))\<rparr>
      = Some (Some (MoveObject (deal_fields [snake_case_blob example_values, unnamed_blob])))"
    by simp
  have blobs: "field_walrus_blobs (deal_fields [snake_case_blob example_values, unnamed_blob])
      = Some [snake_case_blob example_values, unnamed_blob]"
    by (simp add: deal_fields_def)
  show ?thesis
    by (rule blob_identifier_of_record [OF cfg obj data blobs run])
qed

lemma or_chain_first: "or_empty (or_else (Some x) None) = x"
  by (simp add: or_else_def or_empty_def)

lemma or_chain_second: "or_empty (or_else None (Some x)) = x"
  by (simp add: or_else_def or_empty_def)

lemma uploadedAt_time_named:
  "uploadedAt_time now (named_blob n v)
     = (if value_uploadedAt v \<noteq> 0 then value_uploadedAt v * 1000 else now)"
  by (simp add: uploadedAt_time_def named_blob_def or_zero_def)

text \<open>The reference made from a record does not depend on the names its fields stand under.\<close>

lemma toBlobReference_named:
  "toBlobReference now (named_blob n v)
     = (case Date_toISOString (if value_uploadedAt v \<noteq> 0 then value_uploadedAt v * 1000 else now) of
          Inl e \<Rightarrow> Inl e
        | Inr t \<Rightarrow>
            Inr \<lparr>blobId = value_blobId v, periodId = value_periodId v,
                 dataType = value_dataType v, size' = value_size v, uploadedAt = t,
                 uploaderAddress = value_uploader v\<rparr>)"
  unfolding toBlobReference_def uploadedAt_time_named
  by (simp add: named_blob_def or_chain_first or_chain_second or_zero_def split: sum.splits)

text \<open>
  C7, as claimed: a record under the snake-case names and a record with the same values
  under the camel-case names give identical references. The snake-case \<open>uploaded_at\<close> is
  read as seconds and multiplied by 1000, the camel-case \<open>uploadedAt\<close> is read as
  milliseconds: the same number under the two names gives two different upload times.
\<close>

theorem naming_conventions_counterexample:
  "getDealBlobReferences example_config (deal_sui_sdk [snake_case_blob example_values]) 0 ''deal-1''
     = Inr [\<lparr>blobId = ''blob-1'', periodId = ''period-1'', dataType = ''report'', size' = 10,
             uploadedAt = ''2023-11-14T22:13:20.000Z'', uploaderAddress = ''0xseller''\<rparr>]
   \<and> getDealBlobReferences example_config (deal_sui_sdk [camelCase_blob example_values]) 0 ''deal-1''
     = Inr [\<lparr>blobId = ''blob-1'', periodId = ''period-1'', dataType = ''report'', size' = 10,
             uploadedAt = ''1970-01-20T16:13:20.000Z'', uploaderAddress = ''0xseller''\<rparr>]
   \<and> getDealBlobReferences example_config (deal_sui_sdk [snake_case_blob example_values]) 0 ''deal-1''
     \<noteq> getDealBlobReferences example_config (deal_sui_sdk [camelCase_blob example_values]) 0 ''deal-1''"
  by code_simp

text \<open>
  C7, amended: two Deal objects whose records carry the same values, each field under
  either of its two names, with the upload time in seconds under \<open>uploaded_at\<close> and in
  milliseconds under \<open>uploadedAt\<close>, give the same answer of \<open>getDealBlobReferences\<close> (at the
  same clock time): for each field the name that is present is read.
\<close>

theorem naming_conventions_agree:
  assumes "getObject sdk1 \<lparr>request_id = d, showContent = True, showType = True\<rparr> = Inr obj1"
    and "getObject sdk2 \<lparr>request_id = d, showContent = True, showType = True\<rparr> = Inr obj2"
    and "response_data obj1 = Some (Some (MoveObject flds1))"
    and "response_data obj2 = Some (Some (MoveObject flds2))"
    and "field_walrus_blobs flds1 = Some (map (\<lambda>v. named_blob (n1 v) v) vs)"
    and "field_walrus_blobs flds2 = Some (map (\<lambda>v. named_blob (n2 v) v) vs)"
  shows "getDealBlobReferences cfg sdk1 now d = getDealBlobReferences cfg sdk2 now d"
proof -
  have "map_throwing (toBlobReference now) (map (\<lambda>v. named_blob (n1 v) v) vs)
      = map_throwing (toBlobReference now) (map (\<lambda>v. named_blob (n2 v) v) vs)"
    by (rule map_throwing_cong) (simp only: toBlobReference_named)
  with assms show ?thesis
    by (simp add: getDealBlobReferences_def getDealBlobReferences_body_def)
qed

theorem naming_conventions_agree_witness:
  "getDealBlobReferences example_config
      (deal_sui_sdk (map (\<lambda>v. named_blob all_snake_case v) [example_values])) 0 ''deal-1''
   = getDealBlobReferences example_config
      (deal_sui_sdk (map (\<lambda>v. named_blob all_camelCase v) [example_values])) 0 ''deal-1''
   \<and> named_blob all_snake_case example_values = snake_case_blob example_values
   \<and> named_blob all_camelCase example_values
     = camelCase_blob (example_values\<lparr>value_uploadedAt := 1700000000000\<rparr>)"
proof -
  have obj: "getObject (deal_sui_sdk blobs) \<lparr>request_id = ''deal-1'', showContent = True, showType = True\<rparr>
      = Inr \<lparr>response_data = Some (Some (MoveObject (deal_fields blobs)))\<rparr>" for blobs
    by (simp add: deal_sui_sdk_def)
  have data: "response_data \<lparr>response_data = Some (Some (MoveObject (deal_fields blobs)))\<rparr>
      = Some (Some (MoveObject (deal_fields blobs)))" for blobs
    by simp
  have blobs: "field_walrus_blobs (deal_fields blobs) = Some blobs" for blobs
    by (simp add: deal_fields_def)
  have names: "named_blob all_snake_case example_values = snake_case_blob example_values"
    "named_blob all_camelCase example_values
       = camelCase_blob (example_values\<lparr>value_uploadedAt := 1700000000000\<rparr>)"
    by (simp_all add: named_blob_def all_snake_case_def all_camelCase_def snake_case_blob_def
                      camelCase_blob_def example_values_def)
  note agree = naming_conventions_agree [where ?n1.0 = "\<lambda>v. all_snake_case"
      and ?n2.0 = "\<lambda>v. all_camelCase" and vs = "[example_values]" and cfg = example_config
      and now = 0, OF obj obj data data blobs blobs]
  from agree names show ?thesis by simp
qed

section \<open>SuiService: audit records\<close>

lemma fetchAuditRecords_append:
  "fetchAuditRecords sdk (xs @ ys) = fetchAuditRecords sdk xs @ fetchAuditRecords sdk ys"
  by (induction xs) (auto split: option.splits)

lemma fetchAuditRecord_id: "fetchAuditRecord sdk rid = Some r \<Longrightarrow> id' r = rid"
  by (auto simp: fetchAuditRecord_def toAuditRecord_def split: sum.splits option.splits parsed_data.splits)

lemma fetchAuditRecords_all:
  "(\<And>x. x \<in> set xs \<Longrightarrow> fetchAuditRecord sdk x \<noteq> None)
    \<Longrightarrow> map id' (fetchAuditRecords sdk xs) = xs"
  by (induction xs) (auto split: option.splits dest: fetchAuditRecord_id)

lemma fetchAuditRecord_throws:
  "getObject sdk \<lparr>request_id = rid, showContent = True, showType = False\<rparr> = Inl e
    \<Longrightarrow> fetchAuditRecord sdk rid = None"
  by (simp add: fetchAuditRecord_def)

lemma fetchAuditRecord_object:
  "getObject sdk \<lparr>request_id = rid, showContent = True, showType = False\<rparr> = Inr obj
    \<Longrightarrow> response_data obj = Some (Some (MoveObject flds))
    \<Longrightarrow> fetchAuditRecord sdk rid = Some (toAuditRecord rid flds)"
  by (simp add: fetchAuditRecord_def)

lemma getDealAuditRecords_events:
  "\<not> falsy (earnout_packageId cfg)
    \<Longrightarrow> queryEvents sdk \<lparr>MoveEventType = or_empty (earnout_packageId cfg)
                                             @ ''::earnout::DataAuditRecordCreated'',
                          limit = 1000\<rparr> = Inr events
    \<Longrightarrow> getDealAuditRecords cfg sdk d = Inr (fetchAuditRecords sdk (collect_ids d events))"
  by (simp add: getDealAuditRecords_def getDealAuditRecords_body_def rethrow_query_def)

text \<open>
  C6. When the event scan has collected the candidate identifiers, the fetch of exactly one
  of them raises and every other fetch gives a Move object, \<open>getDealAuditRecords\<close> returns
  (it does not throw) the records of the other identifiers, in order: one record fewer than
  there are candidates.
\<close>

theorem audit_records_skip_failed_fetch:
  assumes cfg: "\<not> falsy (earnout_packageId cfg)"
    and events: "queryEvents sdk \<lparr>MoveEventType = or_empty (earnout_packageId cfg)
                                                   @ ''::earnout::DataAuditRecordCreated'',
                                   limit = 1000\<rparr> = Inr events"
    and i: "i < length (collect_ids d events)"
    and failed: "getObject sdk \<lparr>request_id = collect_ids d events ! i, showContent = True,
                               showType = False\<rparr> = Inl e"
    and others: "\<forall>j. j < length (collect_ids d events) \<and> j \<noteq> i \<longrightarrow>
                  (\<exists>obj flds. getObject sdk \<lparr>request_id = collect_ids d events ! j,
                                   showContent = True, showType = False\<rparr> = Inr obj
                               \<and> response_data obj = Some (Some (MoveObject flds)))"
  shows "\<exists>records. getDealAuditRecords cfg sdk d = Inr records
            \<and> length records = length (collect_ids d events) - 1
            \<and> map id' records = take i (collect_ids d events) @ drop (Suc i) (collect_ids d events)"
proof -
  define ids where "ids = collect_ids d events"
  have split_ids: "ids = take i ids @ [ids ! i] @ drop (Suc i) ids"
    using i by (simp add: ids_def id_take_nth_drop)
  have ok: "fetchAuditRecord sdk x \<noteq> None" if "x \<in> set (take i ids) \<union> set (drop (Suc i) ids)" for x
  proof -
    from that obtain j where j: "j < length ids" "j \<noteq> i" "x = ids ! j"
    proof
      assume "x \<in> set (take i ids)"
      then obtain k where "k < length (take i ids)" "take i ids ! k = x"
        by (auto simp: in_set_conv_nth)
      then have "k < length ids" "k \<noteq> i" "x = ids ! k" using i by (auto simp: ids_def)
      then show ?thesis by (rule that)
    next
      assume "x \<in> set (drop (Suc i) ids)"
      then obtain k where k: "k < length (drop (Suc i) ids)" "drop (Suc i) ids ! k = x"
        by (auto simp: in_set_conv_nth)
      then have "Suc i + k < length ids" "Suc i + k \<noteq> i" "x = ids ! (Suc i + k)" by auto
      then show ?thesis by (rule that)
    qed
    with others obtain obj flds where
      "getObject sdk \<lparr>request_id = x, showContent = True, showType = False\<rparr> = Inr obj"
      "response_data obj = Some (Some (MoveObject flds))"
      unfolding ids_def by blast
    then show ?thesis by (simp add: fetchAuditRecord_object)
  qed
  have gone: "fetchAuditRecords sdk [ids ! i] = []"
    using failed by (simp add: ids_def fetchAuditRecord_throws)
  have "fetchAuditRecords sdk ids
      = fetchAuditRecords sdk (take i ids) @ fetchAuditRecords sdk (drop (Suc i) ids)"
    by (subst split_ids) (simp only: fetchAuditRecords_append gone append_Nil)
  then have ids_of: "map id' (fetchAuditRecords sdk ids) = take i ids @ drop (Suc i) ids"
    using ok by (simp add: fetchAuditRecords_all)
  then have "length (map id' (fetchAuditRecords sdk ids)) = length (take i ids @ drop (Suc i) ids)"
    by simp
  then have len: "length (fetchAuditRecords sdk ids) = length ids - 1"
    using i by (auto simp: ids_def)
  from getDealAuditRecords_events [OF cfg events, of d] ids_of len show ?thesis
    by (simp add: ids_def)
qed

theorem audit_records_skip_failed_fetch_witness:
  "\<exists>records. getDealAuditRecords example_config audit_sui_sdk ''deal-1'' = Inr records
      \<and> length records = 4
      \<and> map id' records = [''rec-1'', ''rec-2'', ''rec-4'', ''rec-5'']"
proof -
  have ids: "collect_ids ''deal-1''
      (map (\<lambda>r. \<lparr>audit_record_id = Some r, event_deal_id = Some ''deal-1''\<rparr>)
           [''rec-1'', ''rec-2'', ''rec-3'', ''rec-4'', ''rec-5''])
     = [''rec-1'', ''rec-2'', ''rec-3'', ''rec-4'', ''rec-5'']"
    by (simp add: or_empty_def)
  have cfg: "\<not> falsy (earnout_packageId example_config)"
    by (simp add: example_config_def)
  have events: "queryEvents audit_sui_sdk
      \<lparr>MoveEventType = or_empty (earnout_packageId example_config)
                          @ ''::earnout::DataAuditRecordCreated'', limit = 1000\<rparr>
     = Inr (map (\<lambda>r. \<lparr>audit_record_id = Some r, event_deal_id = Some ''deal-1''\<rparr>)
           [''rec-1'', ''rec-2'', ''rec-3'', ''rec-4'', ''rec-5''])"
    by (simp add: audit_sui_sdk_def)
  have failed: "getObject audit_sui_sdk
      \<lparr>request_id = [''rec-1'', ''rec-2'', ''rec-3'', ''rec-4'', ''rec-5''] ! 2,
       showContent = True, showType = False\<rparr> = Inl (Error ''fetch failed'')"
    by (simp add: audit_sui_sdk_def)
  have others: "\<forall>j. j < length [''rec-1'', ''rec-2'', ''rec-3'', ''rec-4'', ''rec-5''] \<and> j \<noteq> 2 \<longrightarrow>
      (\<exists>obj flds. getObject audit_sui_sdk
          \<lparr>request_id = [''rec-1'', ''rec-2'', ''rec-3'', ''rec-4'', ''rec-5''] ! j,
           showContent = True, showType = False\<rparr> = Inr obj
        \<and> response_data obj = Some (Some (MoveObject flds)))"
  proof (intro allI impI)
    fix j :: nat
    assume "j < length [''rec-1'', ''rec-2'', ''rec-3'', ''rec-4'', ''rec-5''] \<and> j \<noteq> 2"
    then have "j = 0 \<or> j = 1 \<or> j = 3 \<or> j = 4" by auto
    then show "\<exists>obj flds. getObject audit_sui_sdk
          \<lparr>request_id = [''rec-1'', ''rec-2'', ''rec-3'', ''rec-4'', ''rec-5''] ! j,
           showContent = True, showType = False\<rparr> = Inr obj
        \<and> response_data obj = Some (Some (MoveObject flds))"
      by (auto simp: audit_sui_sdk_def)
  qed
  have i: "2 < length [''rec-1'', ''rec-2'', ''rec-3'', ''rec-4'', ''rec-5'']"
    by simp
  note run = audit_records_skip_failed_fetch [where cfg = example_config and sdk = audit_sui_sdk
      and d = "''deal-1''" and i = 2 and e = "Error ''fetch failed''", OF cfg events,
      unfolded ids, OF i failed others]
  then obtain records where
    "getDealAuditRecords example_config audit_sui_sdk ''deal-1'' = Inr records"
    "length records = length [''rec-1'', ''rec-2'', ''rec-3'', ''rec-4'', ''rec-5''] - 1"
    "map id' records = take 2 [''rec-1'', ''rec-2'', ''rec-3'', ''rec-4'', ''rec-5'']
                       @ drop (Suc 2) [''rec-1'', ''rec-2'', ''rec-3'', ''rec-4'', ''rec-5'']"
    by blast
  then show ?thesis by (intro exI [of _ records]) simp
qed

end
